theory Spec2Isabelle
  imports
    Main
    "HOL-Library.AList"
    "HOL-Library.Sublist"
    "HOL-Library.Multiset"
    "HOL-Library.Product_Lexorder"
    "HOL-Library.List_Lexorder"
    "HOL-Library.Char_ord"
begin

section \<open>The note store of \<^verbatim>\<open>services/database.py\<close>\<close>

text \<open>
  The development embeds \<^verbatim>\<open>InMemoryDatabase\<close> (\<^verbatim>\<open>src/services/database.py\<close>), the
  pydantic models of \<^verbatim>\<open>src/models/note.py\<close>, the search route of
  \<^verbatim>\<open>src/routers/notes.py\<close> and the start of the application in \<^verbatim>\<open>src/api/main.py\<close>.
  Python strings are lists of code points; the model has the
  code points 0..255 (the type \<open>char\<close>). Python integers are \<open>int\<close>. Every exception of
  the source is a value of \<open>error\<close>, and a method that mutates the object returns the new
  object next to its result, so that the state an exception leaves behind is visible.
\<close>

subsection \<open>Python built-ins the store calls\<close>

datatype error =
    ValueError | TypeError | AttributeError | ValidationError | FileNotFoundError
  | UnicodeDecodeError | RequestValidationError | HTTPException nat

text \<open>\<^verbatim>\<open>str.lower()\<close> follows the case mapping of Unicode, a table of the interpreter,
  and it is no map of single characters: a capital sigma lowers by its place in the word,
  and the result can be longer than the string. The function is a parameter \<open>L\<close> of the
  model.\<close>

text \<open>\<^verbatim>\<open>repr\<close> of an integer, which \<^verbatim>\<open>json.dump\<close> writes for an integer key.\<close>

definition digit_char :: "nat \<Rightarrow> char" where
  "digit_char d = ''0123456789'' ! d"

fun str_nat :: "nat \<Rightarrow> string" where
  "str_nat n = (if n < 10 then [digit_char n] else str_nat (n div 10) @ [digit_char (n mod 10)])"

declare str_nat.simps [simp del]

definition str_int :: "int \<Rightarrow> string" where
  "str_int i = (if i < 0 then CHR ''-'' # str_nat (nat (- i)) else str_nat (nat i))"

text \<open>\<^verbatim>\<open>int(k)\<close> on a string. White space is stripped at both ends: the six ASCII
  characters tab, line feed, vertical tab, form feed, carriage return and space, and of the
  code points above 127 the next-line character 133 and the no-break space 160, which
  \<^verbatim>\<open>int\<close> turns into spaces first. The separators 28 to 31 are not stripped. One sign
  may lead, and the digits may be separated by single underscores. A string of more than
  4300 digits is refused (\<^verbatim>\<open>sys.int_info.default_max_str_digits\<close>). \<open>None\<close> is the
  \<^verbatim>\<open>ValueError\<close>.\<close>

definition py_isspace :: "char \<Rightarrow> bool" where
  "py_isspace c = ((of_char c :: nat) \<in> {9, 10, 11, 12, 13, 32, 133, 160})"

definition strip :: "string \<Rightarrow> string" where
  "strip s = rev (dropWhile py_isspace (rev (dropWhile py_isspace s)))"

definition is_digit :: "char \<Rightarrow> bool" where
  "is_digit c = (48 \<le> (of_char c :: nat) \<and> (of_char c :: nat) \<le> 57)"

definition digit_val :: "char \<Rightarrow> nat" where
  "digit_val c = of_char c - 48"

fun after_digit :: "nat \<Rightarrow> string \<Rightarrow> nat option" where
  "after_digit acc [] = Some acc"
| "after_digit acc [c] = (if is_digit c then Some (10 * acc + digit_val c) else None)"
| "after_digit acc (c # d # r) =
     (if is_digit c then after_digit (10 * acc + digit_val c) (d # r)
      else if c = CHR ''_'' \<and> is_digit d then after_digit (10 * acc + digit_val d) r
      else None)"

definition parse_digits :: "string \<Rightarrow> nat option" where
  "parse_digits s = (case s of [] \<Rightarrow> None
               | c # r \<Rightarrow> if is_digit c then after_digit (digit_val c) r else None)"

definition max_str_digits :: nat where
  "max_str_digits = 4300"

definition py_nat :: "string \<Rightarrow> nat option" where
  "py_nat s = (if max_str_digits < length (filter is_digit s) then None else parse_digits s)"

definition py_int :: "string \<Rightarrow> int option" where
  "py_int s =
     (case strip s of
        [] \<Rightarrow> None
      | c # r \<Rightarrow>
          if c = CHR ''-'' then map_option (\<lambda>n. - int n) (py_nat r)
          else if c = CHR ''+'' then map_option int (py_nat r)
          else map_option int (py_nat (c # r)))"

text \<open>A naive \<^verbatim>\<open>datetime\<close>, as \<^verbatim>\<open>datetime.now()\<close> returns it. Two of them compare by
  their fields, the year first.\<close>

record datetime =
  year :: nat
  month :: nat
  day :: nat
  hour :: nat
  minute :: nat
  second :: nat
  microsecond :: nat

definition dt_key :: "datetime \<Rightarrow> nat \<times> nat \<times> nat \<times> nat \<times> nat \<times> nat \<times> nat" where
  "dt_key t = (year t, month t, day t, hour t, minute t, second t, microsecond t)"

text \<open>\<^verbatim>\<open>str\<close> of a datetime, which \<^verbatim>\<open>json.dump(..., default=str)\<close> writes:
  \<^verbatim>\<open>YYYY-MM-DD HH:MM:SS\<close>, and \<^verbatim>\<open>.ffffff\<close> after it when the microsecond is not 0.\<close>

definition zfill :: "nat \<Rightarrow> string \<Rightarrow> string" where
  "zfill w s = replicate (w - length s) CHR ''0'' @ s"

definition str_datetime :: "datetime \<Rightarrow> string" where
  "str_datetime t =
     zfill 4 (str_nat (year t)) @ ''-'' @ zfill 2 (str_nat (month t)) @ ''-'' @
     zfill 2 (str_nat (day t)) @ '' '' @ zfill 2 (str_nat (hour t)) @ '':'' @
     zfill 2 (str_nat (minute t)) @ '':'' @ zfill 2 (str_nat (second t)) @
     (if microsecond t = 0 then [] else ''.'' @ zfill 6 (str_nat (microsecond t)))"

text \<open>\<^verbatim>\<open>xs[i:j]\<close>: a negative index counts from the end, and both ends are clamped to
  the list.\<close>

definition clamp_index :: "nat \<Rightarrow> int \<Rightarrow> nat" where
  "clamp_index n i = (if i < 0 then nat (max 0 (int n + i)) else min n (nat i))"

definition py_slice :: "'a list \<Rightarrow> int \<Rightarrow> int \<Rightarrow> 'a list" where
  "py_slice xs i j =
     (let a = clamp_index (length xs) i; b = clamp_index (length xs) j
      in take (b - a) (drop a xs))"

text \<open>\<^verbatim>\<open>list.sort(key=..., reverse=True)\<close>: the sort is stable, and with
  \<^verbatim>\<open>reverse=True\<close> elements with equal keys keep their order: the list is reversed,
  sorted stably, and reversed again. A stable sort has one result, so the insertion sort
  \<^const>\<open>sort_key\<close> stands for Python's.\<close>

definition py_sort_reverse :: "('a \<Rightarrow> 'k::linorder) \<Rightarrow> 'a list \<Rightarrow> 'a list" where
  "py_sort_reverse key xs = rev (sort_key key (rev xs))"

text \<open>A list comprehension whose element expression may raise: the first exception ends it.\<close>

fun map_result :: "('a \<Rightarrow> error + 'b) \<Rightarrow> 'a list \<Rightarrow> error + 'b list" where
  "map_result f [] = Inr []"
| "map_result f (x # xs) =
     (case f x of
        Inl e \<Rightarrow> Inl e
      | Inr y \<Rightarrow> (case map_result f xs of Inl e \<Rightarrow> Inl e | Inr ys \<Rightarrow> Inr (y # ys)))"

subsection \<open>The models of \<^verbatim>\<open>models/note.py\<close>\<close>

record NoteBase =
  title :: string
  content :: string

type_synonym NoteCreate = NoteBase

record NoteResponse = NoteBase +
  note_id :: int
  created_at :: datetime
  updated_at :: datetime

text \<open>\<^verbatim>\<open>NoteUpdate\<close>: both fields are \<^verbatim>\<open>Optional[str]\<close> with the default \<^verbatim>\<open>None\<close>.
  pydantic remembers which fields the caller set, so a field is unset, or set to
  \<^verbatim>\<open>None\<close>, or set to a string.\<close>

datatype 'a supplied = Unset | Supplied 'a

record NoteUpdate =
  upd_title :: "string option supplied"
  upd_content :: "string option supplied"

datatype field = Title | Content

text \<open>\<^verbatim>\<open>model_dump(exclude_unset=True)\<close>: the fields that were set, with their values.\<close>

definition model_dump_exclude_unset :: "NoteUpdate \<Rightarrow> (field \<times> string option) list" where
  "model_dump_exclude_unset u =
     (case upd_title u of Unset \<Rightarrow> [] | Supplied v \<Rightarrow> [(Title, v)]) @
     (case upd_content u of Unset \<Rightarrow> [] | Supplied v \<Rightarrow> [(Content, v)])"

subsection \<open>The records the store holds\<close>

text \<open>A note is a Python dict with the keys \<^verbatim>\<open>id\<close>, \<^verbatim>\<open>title\<close>, \<^verbatim>\<open>content\<close>,
  \<^verbatim>\<open>created_at\<close> and \<^verbatim>\<open>updated_at\<close>. The values are not checked when they are stored:
  a title or content can be \<^verbatim>\<open>None\<close> (an update that sets it so), and a timestamp is
  a \<^verbatim>\<open>datetime\<close> when \<^verbatim>\<open>create_note\<close> or \<^verbatim>\<open>update_note\<close> wrote it and a string when
  it came from the file.\<close>

datatype timestamp = is_datetime: DT (the_dt: datetime) | is_str: TStr (the_str: string)

record note_dict =
  d_id :: int
  d_title :: "string option"
  d_content :: "string option"
  d_created_at :: timestamp
  d_updated_at :: timestamp

text \<open>\<^verbatim>\<open>note.update(update_data)\<close>.\<close>

fun dict_update :: "note_dict \<Rightarrow> (field \<times> string option) list \<Rightarrow> note_dict" where
  "dict_update n [] = n"
| "dict_update n ((Title, v) # kvs) = dict_update (n\<lparr>d_title := v\<rparr>) kvs"
| "dict_update n ((Content, v) # kvs) = dict_update (n\<lparr>d_content := v\<rparr>) kvs"

text \<open>\<^verbatim>\<open>NoteResponse(**note)\<close> validates the dict: the title is a string of 1 to 200
  characters, the content is a string, and a timestamp is a datetime or a string that
  pydantic's datetime parser accepts. That parser is a parameter \<open>P\<close> of the model
  (\<open>None\<close> where it rejects the string).\<close>

definition validate_timestamp :: "(string \<Rightarrow> datetime option) \<Rightarrow> timestamp \<Rightarrow> datetime option" where
  "validate_timestamp P ts = (case ts of DT t \<Rightarrow> Some t | TStr s \<Rightarrow> P s)"

definition NoteResponse_of :: "(string \<Rightarrow> datetime option) \<Rightarrow> note_dict \<Rightarrow> error + NoteResponse" where
  "NoteResponse_of P n =
     (case (d_title n, d_content n, validate_timestamp P (d_created_at n),
            validate_timestamp P (d_updated_at n)) of
        (Some t, Some c, Some ca, Some ua) \<Rightarrow>
          if 1 \<le> length t \<and> length t \<le> 200
          then Inr \<lparr>title = t, content = c, note_id = d_id n, created_at = ca, updated_at = ua\<rparr>
          else Inl ValidationError
      | _ \<Rightarrow> Inl ValidationError)"

subsection \<open>The backing file\<close>

text \<open>What \<^verbatim>\<open>open\<close> and \<^verbatim>\<open>json.load\<close> find at \<^verbatim>\<open>data_file\<close>:
  \<^item> no file (\<^verbatim>\<open>FileNotFoundError\<close>);
  \<^item> bytes that are no text in the encoding of the platform (\<^verbatim>\<open>UnicodeDecodeError\<close>);
  \<^item> text that is no JSON, the empty file among them (\<^verbatim>\<open>JSONDecodeError\<close>);
  \<^item> a JSON value that is no object: a list, a string, a number, \<^verbatim>\<open>null\<close>;
  \<^item> a JSON object whose \<^verbatim>\<open>notes\<close> is there and is no object;
  \<^item> a JSON object of the persisted layout: the notes keyed by strings, and the counter.
    Either key may be absent. JSON has no datetime, so the timestamps of a document are
    strings.\<close>

record json_note =
  j_id :: int
  j_title :: "string option"
  j_content :: "string option"
  j_created_at :: string
  j_updated_at :: string

record document =
  doc_notes :: "(string \<times> json_note) list option"
  doc_next_id :: "int option"

datatype file_content =
    Missing | Undecodable | Unparsable | Not_an_object | Notes_not_an_object
  | Document document

subsection \<open>\<^verbatim>\<open>InMemoryDatabase\<close>\<close>

text \<open>The object has the fields \<^verbatim>\<open>data_file\<close>, \<^verbatim>\<open>notes\<close> and \<^verbatim>\<open>next_id\<close>. A Python dict
  keeps its keys in insertion order, and the sorts below are stable, so \<open>notes_dict\<close> (the field \<^verbatim>\<open>notes\<close>) is an
  association list: \<^const>\<open>AList.update\<close> overwrites a key in place and appends a new key,
  as \<^verbatim>\<open>notes[k] = v\<close> does. The field \<open>disk\<close> is the content of the file at
  \<^verbatim>\<open>data_file\<close>, which the object reads and writes.\<close>

record InMemoryDatabase =
  data_file :: "string option"
  notes_dict :: "(int \<times> note_dict) list"
  next_id :: int
  disk :: file_content

text \<open>\<^verbatim>\<open>os.path.dirname\<close> (POSIX): the path up to its last slash, without trailing
  slashes unless it is all slashes.\<close>

definition dirname :: "string \<Rightarrow> string" where
  "dirname p =
     (let head = rev (dropWhile (\<lambda>c. c \<noteq> CHR ''/'') (rev p))
      in if head \<noteq> [] \<and> \<not> list_all (\<lambda>c. c = CHR ''/'') head
         then rev (dropWhile (\<lambda>c. c = CHR ''/'') (rev head)) else head)"

definition dump_timestamp :: "timestamp \<Rightarrow> string" where
  "dump_timestamp ts = (case ts of DT t \<Rightarrow> str_datetime t | TStr s \<Rightarrow> s)"

definition dump_note :: "note_dict \<Rightarrow> json_note" where
  "dump_note n =
     \<lparr>j_id = d_id n, j_title = d_title n, j_content = d_content n,
      j_created_at = dump_timestamp (d_created_at n),
      j_updated_at = dump_timestamp (d_updated_at n)\<rparr>"

definition snapshot :: "InMemoryDatabase \<Rightarrow> document" where
  "snapshot s =
     \<lparr>doc_notes = Some (map (\<lambda>(k, n). (str_int k, dump_note n)) (notes_dict s)),
      doc_next_id = Some (next_id s)\<rparr>"

text \<open>\<^verbatim>\<open>_save_to_file\<close>. Without a \<^verbatim>\<open>data_file\<close> (or with the empty string) it returns at
  once. \<^verbatim>\<open>os.makedirs\<close> raises \<^verbatim>\<open>FileNotFoundError\<close> on the empty directory name of a
  path without a slash; on any other path the directory and the file are taken to be
  writable.\<close>

definition save_to_file :: "InMemoryDatabase \<Rightarrow> error + InMemoryDatabase" where
  "save_to_file s =
     (case data_file s of
        None \<Rightarrow> Inr s
      | Some p \<Rightarrow>
          if p = [] then Inr s
          else if dirname p = [] then Inl FileNotFoundError
          else Inr (s\<lparr>disk := Document (snapshot s)\<rparr>))"

text \<open>\<^verbatim>\<open>_load_from_file\<close>. Its \<^verbatim>\<open>except\<close> clause catches \<^verbatim>\<open>JSONDecodeError\<close> and
  \<^verbatim>\<open>FileNotFoundError\<close> and nothing else. So \<^verbatim>\<open>UnicodeDecodeError\<close> of the read
  goes through, and so do \<^verbatim>\<open>AttributeError\<close> of \<^verbatim>\<open>data.get\<close> on a value that is no
  object and of \<^verbatim>\<open>.items()\<close> on notes that are no object, and \<^verbatim>\<open>ValueError\<close> of
  \<^verbatim>\<open>int(k)\<close> in the dict comprehension \<^verbatim>\<open>{int(k): v for k, v in ...}\<close> at a key that is
  no integer.\<close>

definition load_note :: "json_note \<Rightarrow> note_dict" where
  "load_note v =
     \<lparr>d_id = j_id v, d_title = j_title v, d_content = j_content v,
      d_created_at = TStr (j_created_at v), d_updated_at = TStr (j_updated_at v)\<rparr>"

fun load_items ::
  "(string \<times> json_note) list \<Rightarrow> (int \<times> note_dict) list \<Rightarrow> error + (int \<times> note_dict) list" where
  "load_items [] acc = Inr acc"
| "load_items ((k, v) # kvs) acc =
     (case py_int k of
        None \<Rightarrow> Inl ValueError
      | Some i \<Rightarrow> load_items kvs (AList.update i (load_note v) acc))"

definition load_from_file :: "InMemoryDatabase \<Rightarrow> error + InMemoryDatabase" where
  "load_from_file s =
     (case disk s of
        Missing \<Rightarrow> Inr (s\<lparr>notes_dict := [], next_id := 1\<rparr>)
      | Undecodable \<Rightarrow> Inl UnicodeDecodeError
      | Unparsable \<Rightarrow> Inr (s\<lparr>notes_dict := [], next_id := 1\<rparr>)
      | Not_an_object \<Rightarrow> Inl AttributeError
      | Notes_not_an_object \<Rightarrow> Inl AttributeError
      | Document d \<Rightarrow>
          (case load_items (case doc_notes d of None \<Rightarrow> [] | Some kvs \<Rightarrow> kvs) [] of
             Inl e \<Rightarrow> Inl e
           | Inr ns \<Rightarrow>
               Inr (s\<lparr>notes_dict := ns,
                       next_id := (case doc_next_id d of None \<Rightarrow> 1 | Some i \<Rightarrow> i)\<rparr>)))"

text \<open>\<^verbatim>\<open>__init__\<close>, for a \<^verbatim>\<open>data_file\<close> argument and the content of the file there.\<close>

definition init :: "string option \<Rightarrow> file_content \<Rightarrow> error + InMemoryDatabase" where
  "init df fc =
     (let s = \<lparr>data_file = df, notes_dict = [], next_id = 1, disk = fc\<rparr>
      in if df \<noteq> None \<and> df \<noteq> Some [] \<and> fc \<noteq> Missing then load_from_file s else Inr s)"

text \<open>The start of the application in \<^verbatim>\<open>api/main.py\<close>: the module-level object
  \<^verbatim>\<open>db = InMemoryDatabase()\<close> has no file; when \<^verbatim>\<open>settings.data_file\<close> is set, the
  module assigns it and calls \<^verbatim>\<open>db._load_from_file()\<close>. An exception there ends the
  import of the module, and the application does not start.\<close>

definition startup :: "string option \<Rightarrow> file_content \<Rightarrow> error + InMemoryDatabase" where
  "startup df fc =
     (let db = \<lparr>data_file = None, notes_dict = [], next_id = 1, disk = fc\<rparr>
      in if df \<noteq> None \<and> df \<noteq> Some [] then load_from_file (db\<lparr>data_file := df\<rparr>) else Inr db)"

text \<open>\<^verbatim>\<open>create_note\<close>; \<open>now\<close> is what \<^verbatim>\<open>datetime.now()\<close> returns in the call.\<close>

definition create_note ::
  "(string \<Rightarrow> datetime option) \<Rightarrow> InMemoryDatabase \<Rightarrow> NoteCreate \<Rightarrow> datetime \<Rightarrow>
   InMemoryDatabase \<times> (error + NoteResponse)" where
  "create_note P s note_data now =
     (let note = \<lparr>d_id = next_id s, d_title = Some (title note_data),
                  d_content = Some (content note_data),
                  d_created_at = DT now, d_updated_at = DT now\<rparr>;
          s1 = s\<lparr>notes_dict := AList.update (next_id s) note (notes_dict s), next_id := next_id s + 1\<rparr>
      in case save_to_file s1 of
           Inl e \<Rightarrow> (s1, Inl e)
         | Inr s2 \<Rightarrow> (s2, NoteResponse_of P note))"

definition get_note ::
  "(string \<Rightarrow> datetime option) \<Rightarrow> InMemoryDatabase \<Rightarrow> int \<Rightarrow> error + NoteResponse option" where
  "get_note P s i =
     (case map_of (notes_dict s) i of
        None \<Rightarrow> Inr None
      | Some note \<Rightarrow> map_sum id Some (NoteResponse_of P note))"

text \<open>\<^verbatim>\<open>get_notes\<close> sorts the dicts by the stored \<^verbatim>\<open>created_at\<close> values. Python compares
  two datetimes and two strings, and raises \<^verbatim>\<open>TypeError\<close> when it compares a datetime
  with a string; a sort of two or more values of both kinds makes such a comparison.\<close>

definition sort_by_created_at :: "note_dict list \<Rightarrow> error + note_dict list" where
  "sort_by_created_at xs =
     (if list_all (\<lambda>n. is_datetime (d_created_at n)) xs
      then Inr (py_sort_reverse (\<lambda>n. dt_key (the_dt (d_created_at n))) xs)
      else if list_all (\<lambda>n. is_str (d_created_at n)) xs
      then Inr (py_sort_reverse (\<lambda>n. the_str (d_created_at n)) xs)
      else Inl TypeError)"

definition get_notes ::
  "(string \<Rightarrow> datetime option) \<Rightarrow> InMemoryDatabase \<Rightarrow> int \<Rightarrow> int \<Rightarrow>
   error + (NoteResponse list \<times> nat)" where
  "get_notes P s skip limit =
     (case sort_by_created_at (map snd (notes_dict s)) of
        Inl e \<Rightarrow> Inl e
      | Inr all_notes \<Rightarrow>
          (case map_result (NoteResponse_of P) (py_slice all_notes skip (skip + limit)) of
             Inl e \<Rightarrow> Inl e
           | Inr page \<Rightarrow> Inr (page, length all_notes)))"

text \<open>\<^verbatim>\<open>update_note\<close>. \<^verbatim>\<open>datetime.now()\<close> is read only when \<^verbatim>\<open>update_data\<close> is not
  empty. The dict is changed in place, so the note keeps its position.\<close>

definition update_note ::
  "(string \<Rightarrow> datetime option) \<Rightarrow> InMemoryDatabase \<Rightarrow> int \<Rightarrow> NoteUpdate \<Rightarrow> datetime \<Rightarrow>
   InMemoryDatabase \<times> (error + NoteResponse option)" where
  "update_note P s i note_data now =
     (case map_of (notes_dict s) i of
        None \<Rightarrow> (s, Inr None)
      | Some note \<Rightarrow>
          (let update_data = model_dump_exclude_unset note_data
           in if update_data \<noteq> []
              then (let note' = (dict_update note update_data)\<lparr>d_updated_at := DT now\<rparr>;
                        s1 = s\<lparr>notes_dict := AList.update i note' (notes_dict s)\<rparr>
                    in case save_to_file s1 of
                         Inl e \<Rightarrow> (s1, Inl e)
                       | Inr s2 \<Rightarrow> (s2, map_sum id Some (NoteResponse_of P note')))
              else (s, map_sum id Some (NoteResponse_of P note))))"

definition delete_note :: "InMemoryDatabase \<Rightarrow> int \<Rightarrow> InMemoryDatabase \<times> (error + bool)" where
  "delete_note s i =
     (if map_of (notes_dict s) i \<noteq> None
      then (let s1 = s\<lparr>notes_dict := AList.delete i (notes_dict s)\<rparr>
            in case save_to_file s1 of
                 Inl e \<Rightarrow> (s1, Inl e)
               | Inr s2 \<Rightarrow> (s2, Inr True))
      else (s, Inr False))"

text \<open>\<^verbatim>\<open>search_notes\<close>. \<^verbatim>\<open>note['title'].lower()\<close> raises \<^verbatim>\<open>AttributeError\<close> on
  \<^verbatim>\<open>None\<close>; the content is looked at only when the title does not match. The operator
  \<^verbatim>\<open>in\<close> on two strings is \<^const>\<open>sublist\<close>.\<close>

definition note_matches :: "(string \<Rightarrow> string) \<Rightarrow> string \<Rightarrow> note_dict \<Rightarrow> error + bool" where
  "note_matches L query_lower n =
     (case d_title n of
        None \<Rightarrow> Inl AttributeError
      | Some t \<Rightarrow>
          if sublist query_lower (L t) then Inr True
          else (case d_content n of
                  None \<Rightarrow> Inl AttributeError
                | Some c \<Rightarrow> Inr (sublist query_lower (L c))))"

fun matching_notes ::
  "(string \<Rightarrow> string) \<Rightarrow> (string \<Rightarrow> datetime option) \<Rightarrow> string \<Rightarrow> note_dict list \<Rightarrow>
   error + NoteResponse list" where
  "matching_notes L P query_lower [] = Inr []"
| "matching_notes L P query_lower (n # ns) =
     (case note_matches L query_lower n of
        Inl e \<Rightarrow> Inl e
      | Inr False \<Rightarrow> matching_notes L P query_lower ns
      | Inr True \<Rightarrow>
          (case NoteResponse_of P n of
             Inl e \<Rightarrow> Inl e
           | Inr r \<Rightarrow>
               (case matching_notes L P query_lower ns of
                  Inl e \<Rightarrow> Inl e
                | Inr rs \<Rightarrow> Inr (r # rs))))"

definition search_notes ::
  "(string \<Rightarrow> string) \<Rightarrow> (string \<Rightarrow> datetime option) \<Rightarrow> InMemoryDatabase \<Rightarrow> string \<Rightarrow>
   error + NoteResponse list" where
  "search_notes L P s query =
     (case matching_notes L P (L query) (map snd (notes_dict s)) of
        Inl e \<Rightarrow> Inl e
      | Inr ms \<Rightarrow> Inr (py_sort_reverse (\<lambda>r. dt_key (created_at r)) ms))"

text \<open>The route \<^verbatim>\<open>GET /notes/search\<close> of \<^verbatim>\<open>routers/notes.py\<close> declares
  \<^verbatim>\<open>q: str = Query(..., min_length=1)\<close>: a shorter query is rejected before the store is
  called. The call of the store is in a \<^verbatim>\<open>try\<close> whose \<^verbatim>\<open>except Exception\<close> raises
  \<^verbatim>\<open>HTTPException(status_code=500)\<close> for whatever the store raised.\<close>

definition search_notes_route ::
  "(string \<Rightarrow> string) \<Rightarrow> (string \<Rightarrow> datetime option) \<Rightarrow> InMemoryDatabase \<Rightarrow> string \<Rightarrow>
   error + NoteResponse list" where
  "search_notes_route L P s q =
     (if length q < 1 then Inl RequestValidationError
      else (case search_notes L P s q of
              Inl e \<Rightarrow> Inl (HTTPException 500)
            | Inr rs \<Rightarrow> Inr rs))"

subsection \<open>Sequences of calls\<close>

text \<open>A client calls \<^verbatim>\<open>create_note\<close> and \<^verbatim>\<open>delete_note\<close> in some order on one object. The
  object lives on after a call that raised, so the run goes on with the state the call
  left.\<close>

datatype op = Create NoteCreate datetime | Delete int

datatype outcome = Created "error + NoteResponse" | Deleted "error + bool"

fun run_ops ::
  "(string \<Rightarrow> datetime option) \<Rightarrow> InMemoryDatabase \<Rightarrow> op list \<Rightarrow> InMemoryDatabase \<times> outcome list" where
  "run_ops P s [] = (s, [])"
| "run_ops P s (Create note_data now # ops) =
     (case create_note P s note_data now of
        (s1, r) \<Rightarrow> (case run_ops P s1 ops of (s2, rs) \<Rightarrow> (s2, Created r # rs)))"
| "run_ops P s (Delete i # ops) =
     (case delete_note s i of
        (s1, r) \<Rightarrow> (case run_ops P s1 ops of (s2, rs) \<Rightarrow> (s2, Deleted r # rs)))"

text \<open>The identifiers that the calls of \<^verbatim>\<open>create_note\<close> returned, in the order of the
  calls.\<close>

fun returned_ids :: "outcome list \<Rightarrow> int list" where
  "returned_ids [] = []"
| "returned_ids (Created (Inr r) # os) = note_id r # returned_ids os"
| "returned_ids (Created (Inl e) # os) = returned_ids os"
| "returned_ids (Deleted r # os) = returned_ids os"

subsection \<open>Notes of the data model\<close>

text \<open>A stored note as \<^verbatim>\<open>create_note\<close> writes it from a validated \<^verbatim>\<open>NoteCreate\<close>: the
  title is a string of 1 to 200 characters, the content is a string, and both timestamps
  are datetimes. \<open>response_of\<close> is the \<^verbatim>\<open>NoteResponse\<close> with the same fields.\<close>

definition well_formed :: "note_dict \<Rightarrow> bool" where
  "well_formed n =
     (case (d_title n, d_content n) of
        (Some t, Some c) \<Rightarrow>
          1 \<le> length t \<and> length t \<le> 200 \<and>
          is_datetime (d_created_at n) \<and> is_datetime (d_updated_at n)
      | _ \<Rightarrow> False)"

definition response_of :: "note_dict \<Rightarrow> NoteResponse" where
  "response_of n =
     \<lparr>title = the (d_title n), content = the (d_content n), note_id = d_id n,
      created_at = the_dt (d_created_at n), updated_at = the_dt (d_updated_at n)\<rparr>"

text \<open>The values of the dict, in its order.\<close>

abbreviation stored :: "InMemoryDatabase \<Rightarrow> note_dict list" where
  "stored s \<equiv> map snd (notes_dict s)"








text \<open>A store as a run of \<^verbatim>\<open>create_note\<close>, \<^verbatim>\<open>delete_note\<close> and \<^verbatim>\<open>update_note\<close>
  calls leaves it when it starts empty: the keys ascend in the order of the dict, each note
  carries its key as identifier, every key is below the counter, and the notes are of the
  data model. An update keeps the store so when the fields it supplies are strings (the
  title of 1 to 200 characters), as \<^verbatim>\<open>NoteUpdate\<close> validates them, and not \<^verbatim>\<open>None\<close>.\<close>

definition created_in_order :: "InMemoryDatabase \<Rightarrow> bool" where
  "created_in_order s \<longleftrightarrow>
     sorted_wrt (<) (map fst (notes_dict s)) \<and>
     list_all (\<lambda>(k, n). d_id n = k \<and> k < next_id s \<and> well_formed n) (notes_dict s)"

definition valid_update :: "NoteUpdate \<Rightarrow> bool" where
  "valid_update u \<longleftrightarrow>
     (case upd_title u of
        Unset \<Rightarrow> True
      | Supplied v \<Rightarrow> (case v of None \<Rightarrow> False | Some t \<Rightarrow> 1 \<le> length t \<and> length t \<le> 200)) \<and>
     (case upd_content u of Unset \<Rightarrow> True | Supplied v \<Rightarrow> v \<noteq> None)"

subsection \<open>Example stores\<close>

text \<open>The examples hold strings of the code points 0 to 255. On these \<^verbatim>\<open>str.lower()\<close>
  maps each of the letters A to Z and of the Latin-1 capitals 192 to 222, without the
  multiplication sign 215, to the code point 32 above it, and nothing else.\<close>

definition lower_latin1 :: "string \<Rightarrow> string" where
  "lower_latin1 s =
     map (\<lambda>c. let n = (of_char c :: nat)
               in if (65 \<le> n \<and> n \<le> 90) \<or> (192 \<le> n \<and> n \<le> 222 \<and> n \<noteq> 215)
                  then char_of (n + 32) else c) s"

definition no_parser :: "string \<Rightarrow> datetime option" where
  "no_parser s = None"

definition morning :: datetime where
  "morning = \<lparr>year = 2024, month = 5, day = 1, hour = 9, minute = 0, second = 0, microsecond = 0\<rparr>"

definition evening :: datetime where
  "evening = \<lparr>year = 2024, month = 5, day = 1, hour = 18, minute = 30, second = 0, microsecond = 250\<rparr>"

text \<open>A store without a file, and one with the file \<^verbatim>\<open>data/notes.json\<close> that does not
  exist yet.\<close>

definition db_empty :: InMemoryDatabase where
  "db_empty = \<lparr>data_file = None, notes_dict = [], next_id = 1, disk = Missing\<rparr>"

definition db_file :: InMemoryDatabase where
  "db_file = \<lparr>data_file = Some ''data/notes.json'', notes_dict = [], next_id = 1, disk = Missing\<rparr>"

text \<open>Notes A and B created at the same instant, then C later.\<close>

definition db_abc :: InMemoryDatabase where
  "db_abc =
     fst (create_note no_parser
       (fst (create_note no_parser
         (fst (create_note no_parser db_empty \<lparr>title = ''A'', content = ''Hello world''\<rparr> morning))
         \<lparr>title = ''B'', content = ''goodbye''\<rparr> morning))
       \<lparr>title = ''C'', content = []\<rparr> evening)"

text \<open>The same store after the request \<^verbatim>\<open>PUT /notes/1\<close> with the body
  \<^verbatim>\<open>{"title": null}\<close>: \<^verbatim>\<open>NoteUpdate\<close> accepts \<^verbatim>\<open>null\<close> for an optional field and
  counts the field as set.\<close>

definition db_null :: InMemoryDatabase where
  "db_null =
     fst (update_note no_parser db_abc 1 \<lparr>upd_title = Supplied None, upd_content = Unset\<rparr> evening)"

text \<open>One note, written to the file.\<close>

definition db_saved :: InMemoryDatabase where
  "db_saved = fst (create_note no_parser db_file \<lparr>title = ''A'', content = ''text''\<rparr> morning)"

text \<open>A fresh object started on the file that \<open>db_saved\<close> wrote.\<close>

definition db_reloaded :: "error + InMemoryDatabase" where
  "db_reloaded = init (Some ''data/notes.json'') (disk db_saved)"

text \<open>A datetime parser that reads the text of the two instants above, for the examples
  that read a file back.\<close>

definition example_parser :: "string \<Rightarrow> datetime option" where
  "example_parser s =
     (if s = str_datetime morning then Some morning
      else if s = str_datetime evening then Some evening
      else None)"

text \<open>The store that was read back, after one more \<^verbatim>\<open>create_note\<close>; and the store that
  wrote the file, after the same call.\<close>

definition db_restarted :: InMemoryDatabase where
  "db_restarted =
     fst (create_note example_parser (projr db_reloaded) \<lparr>title = ''B'', content = ''b''\<rparr> evening)"

definition db_continued :: InMemoryDatabase where
  "db_continued =
     fst (create_note example_parser db_saved \<lparr>title = ''B'', content = ''b''\<rparr> evening)"


section \<open>Properties\<close>

subsection \<open>Auxiliary facts\<close>

lemma NoteResponse_of_well_formed:
  "well_formed n \<Longrightarrow> NoteResponse_of P n = Inr (response_of n)"
  by (cases "d_created_at n"; cases "d_updated_at n")
     (auto simp: well_formed_def NoteResponse_of_def response_of_def validate_timestamp_def
           split: option.splits)

lemma map_result_total:
  "(\<And>x. x \<in> set xs \<Longrightarrow> f x = Inr (g x)) \<Longrightarrow> map_result f xs = Inr (map g xs)"
  by (induction xs) auto

lemma length_py_sort_reverse [simp]: "length (py_sort_reverse key xs) = length xs"
  by (simp add: py_sort_reverse_def)

lemma set_py_sort_reverse [simp]: "set (py_sort_reverse key xs) = set xs"
  by (simp add: py_sort_reverse_def)

lemma mset_py_sort_reverse [simp]: "mset (py_sort_reverse key xs) = mset xs"
  by (simp add: py_sort_reverse_def)

lemma length_py_slice:
  "0 \<le> i \<Longrightarrow> 0 \<le> k \<Longrightarrow> length (py_slice xs i (i + k)) = min (nat k) (length xs - nat i)"
  by (auto simp: py_slice_def clamp_index_def Let_def min_def nat_add_distrib)

lemma py_slice_beyond:
  "0 \<le> i \<Longrightarrow> length xs \<le> nat i \<Longrightarrow> py_slice xs i j = []"
  by (auto simp: py_slice_def clamp_index_def Let_def)







lemma py_sort_reverse_stable:
  "filter (\<lambda>x. key x = k) (py_sort_reverse key xs) = filter (\<lambda>x. key x = k) xs"
  by (simp add: py_sort_reverse_def rev_filter [symmetric] sort_key_stable)

lemma dict_update_model_dump:
  "dict_update n (model_dump_exclude_unset u) =
     n\<lparr>d_title := (case upd_title u of Unset \<Rightarrow> d_title n | Supplied v \<Rightarrow> v),
       d_content := (case upd_content u of Unset \<Rightarrow> d_content n | Supplied v \<Rightarrow> v)\<rparr>"
  by (cases "upd_title u"; cases "upd_content u") (simp_all add: model_dump_exclude_unset_def)

lemma model_dump_empty_iff:
  "model_dump_exclude_unset u = [] \<longleftrightarrow> upd_title u = Unset \<and> upd_content u = Unset"
  by (cases "upd_title u"; cases "upd_content u") (simp_all add: model_dump_exclude_unset_def)

lemma save_to_file_cases:
  "save_to_file s =
     (if (\<exists>p. data_file s = Some p \<and> p \<noteq> [] \<and> dirname p = []) then Inl FileNotFoundError
      else if (\<exists>p. data_file s = Some p \<and> dirname p \<noteq> [])
      then Inr (s\<lparr>disk := Document (snapshot s)\<rparr>)
      else Inr s)"
  by (auto simp: save_to_file_def dirname_def split: option.splits)

lemma snapshot_disk [simp]: "snapshot (s\<lparr>disk := d\<rparr>) = snapshot s"
  by (simp add: snapshot_def)

text \<open>The state after \<^verbatim>\<open>update_note\<close> on a note that exists.\<close>

lemma update_note_state:
  assumes "map_of (notes_dict s) i = Some n"
  shows "fst (update_note P s i u now) =
     (if upd_title u = Unset \<and> upd_content u = Unset then s
      else (let s1 = s\<lparr>notes_dict := AList.update i
                 (n\<lparr>d_title := (case upd_title u of Unset \<Rightarrow> d_title n | Supplied v \<Rightarrow> v),
                    d_content := (case upd_content u of Unset \<Rightarrow> d_content n | Supplied v \<Rightarrow> v),
                    d_updated_at := DT now\<rparr>) (notes_dict s)\<rparr>
            in if (\<exists>p. data_file s = Some p \<and> dirname p \<noteq> [])
               then s1\<lparr>disk := Document (snapshot s1)\<rparr> else s1))"
  using assms
  by (auto simp: update_note_def Let_def model_dump_empty_iff dict_update_model_dump
        save_to_file_cases)

text \<open>The example store with one saved note, written out.\<close>

lemma db_saved_eq:
  "db_saved =
     \<lparr>data_file = Some ''data/notes.json'',
      notes_dict = [(1, \<lparr>d_id = 1, d_title = Some ''A'', d_content = Some ''text'',
                         d_created_at = DT morning, d_updated_at = DT morning\<rparr>)],
      next_id = 2,
      disk = Document
        \<lparr>doc_notes = Some [(''1'', \<lparr>j_id = 1, j_title = Some ''A'', j_content = Some ''text'',
                                   j_created_at = ''2024-05-01 09:00:00'',
                                   j_updated_at = ''2024-05-01 09:00:00''\<rparr>)],
         doc_next_id = Some 2\<rparr>\<rparr>"
  by code_simp

lemma db_saved_note:
  "map_of (notes_dict db_saved) 1 =
     Some \<lparr>d_id = 1, d_title = Some ''A'', d_content = Some ''text'',
           d_created_at = DT morning, d_updated_at = DT morning\<rparr>"
  by (simp add: db_saved_eq)



text \<open>The store that a fresh object reads from the file of \<open>db_saved\<close>.\<close>

lemma db_reloaded_eq:
  "db_reloaded =
     Inr \<lparr>data_file = Some ''data/notes.json'',
          notes_dict = [(1, \<lparr>d_id = 1, d_title = Some ''A'', d_content = Some ''text'',
                             d_created_at = TStr ''2024-05-01 09:00:00'',
                             d_updated_at = TStr ''2024-05-01 09:00:00''\<rparr>)],
          next_id = 2,
          disk = Document
            \<lparr>doc_notes = Some [(''1'', \<lparr>j_id = 1, j_title = Some ''A'', j_content = Some ''text'',
                                       j_created_at = ''2024-05-01 09:00:00'',
                                       j_updated_at = ''2024-05-01 09:00:00''\<rparr>)],
             doc_next_id = Some 2\<rparr>\<rparr>"
  by code_simp


text \<open>The counter and the keys under \<^verbatim>\<open>create_note\<close> and \<^verbatim>\<open>delete_note\<close>.\<close>

lemma save_to_file_frame:
  "save_to_file s = Inr s' \<Longrightarrow> notes_dict s' = notes_dict s \<and> next_id s' = next_id s"
  by (auto simp: save_to_file_def split: option.splits if_splits)

lemma create_note_next_id:
  "next_id (fst (create_note P s note_data now)) = next_id s + 1"
  by (auto simp: create_note_def Let_def split: sum.splits dest: save_to_file_frame)

lemma create_note_notes:
  "notes_dict (fst (create_note P s note_data now)) =
     AList.update (next_id s)
       \<lparr>d_id = next_id s, d_title = Some (title note_data),
        d_content = Some (content note_data), d_created_at = DT now, d_updated_at = DT now\<rparr>
       (notes_dict s)"
  by (auto simp: create_note_def Let_def split: sum.splits dest: save_to_file_frame)

lemma create_note_keys:
  "fst ` set (notes_dict (fst (create_note P s note_data now))) =
     insert (next_id s) (fst ` set (notes_dict s))"
  by (simp add: create_note_notes dom_update)

lemma create_note_returned_id:
  "snd (create_note P s note_data now) = Inr r \<Longrightarrow> note_id r = next_id s"
  by (auto simp: create_note_def Let_def NoteResponse_of_def validate_timestamp_def
        split: sum.splits if_splits)

lemma delete_note_next_id: "next_id (fst (delete_note s i)) = next_id s"
  by (auto simp: delete_note_def Let_def split: sum.splits dest: save_to_file_frame)

lemma delete_note_notes:
  "notes_dict (fst (delete_note s i)) = AList.delete i (notes_dict s)"
proof (cases "map_of (notes_dict s) i")
  case None
  then have "i \<notin> fst ` set (notes_dict s)"
    by (simp add: map_of_eq_None_iff)
  then show ?thesis
    using None by (simp add: delete_note_def)
next
  case (Some n)
  then show ?thesis
    by (auto simp: delete_note_def Let_def split: sum.splits dest: save_to_file_frame)
qed

lemma delete_note_keys:
  "fst ` set (notes_dict (fst (delete_note s i))) \<subseteq> fst ` set (notes_dict s)"
  by (simp add: delete_note_notes dom_delete_subset)

lemma run_ops_ids:
  "next_id s \<le> next_id (fst (run_ops P s ops)) \<and>
   sorted_wrt (<) (returned_ids (snd (run_ops P s ops))) \<and>
   (\<forall>i\<in>set (returned_ids (snd (run_ops P s ops))).
      next_id s \<le> i \<and> i < next_id (fst (run_ops P s ops)))"
proof (induction ops arbitrary: s)
  case Nil
  show ?case by simp
next
  case (Cons x ops)
  show ?case
  proof (cases x)
    case (Create note_data now)
    let ?s1 = "fst (create_note P s note_data now)"
    let ?r = "snd (create_note P s note_data now)"
    have eq: "run_ops P s (x # ops) =
        (fst (run_ops P ?s1 ops), Created ?r # snd (run_ops P ?s1 ops))"
      using Create by (simp add: case_prod_unfold)
    have n1: "next_id ?s1 = next_id s + 1"
      by (rule create_note_next_id)
    note ih = Cons.IH [of ?s1]
    show ?thesis
    proof (cases ?r)
      case (Inl e)
      with eq ih n1 show ?thesis by auto
    next
      case (Inr r)
      then have "note_id r = next_id s"
        by (rule create_note_returned_id)
      with Inr eq ih n1 show ?thesis by auto
    qed
  next
    case (Delete i)
    let ?s1 = "fst (delete_note s i)"
    have eq: "run_ops P s (x # ops) =
        (fst (run_ops P ?s1 ops), Deleted (snd (delete_note s i)) # snd (run_ops P ?s1 ops))"
      using Delete by (simp add: case_prod_unfold)
    have "next_id ?s1 = next_id s"
      by (rule delete_note_next_id)
    with eq Cons.IH [of ?s1] show ?thesis by auto
  qed
qed

lemma run_ops_keys:
  "(\<forall>k\<in>fst ` set (notes_dict s). k < next_id s) \<Longrightarrow>
   (\<forall>k\<in>fst ` set (notes_dict (fst (run_ops P s ops))). k < next_id (fst (run_ops P s ops)))"
proof (induction ops arbitrary: s)
  case Nil
  then show ?case by simp
next
  case (Cons x ops)
  show ?case
  proof (cases x)
    case (Create note_data now)
    let ?s1 = "fst (create_note P s note_data now)"
    have "\<forall>k\<in>fst ` set (notes_dict ?s1). k < next_id ?s1"
      using Cons.prems by (simp only: create_note_keys create_note_next_id) auto
    from Cons.IH [OF this] Create show ?thesis
      by (simp add: case_prod_unfold)
  next
    case (Delete i)
    let ?s1 = "fst (delete_note s i)"
    have "\<forall>k\<in>fst ` set (notes_dict ?s1). k < next_id s"
      using Cons.prems delete_note_keys [of s i] by blast
    then have "\<forall>k\<in>fst ` set (notes_dict ?s1). k < next_id ?s1"
      by (simp only: delete_note_next_id)
    from Cons.IH [OF this] Delete show ?thesis
      by (simp add: case_prod_unfold)
  qed
qed

text \<open>What \<^verbatim>\<open>get_notes\<close> returns when it returns.\<close>

lemma map_result_length: "map_result f xs = Inr ys \<Longrightarrow> length ys = length xs"
  by (induction xs arbitrary: ys) (auto split: sum.splits)

lemma sort_by_created_at_length: "sort_by_created_at xs = Inr ys \<Longrightarrow> length ys = length xs"
  by (auto simp: sort_by_created_at_def split: if_splits)

lemma length_py_slice_clamp:
  "length (py_slice xs i j) = clamp_index (length xs) j - clamp_index (length xs) i"
  by (auto simp: py_slice_def clamp_index_def Let_def)

lemma get_notes_returns:
  assumes "get_notes P s skip limit = Inr (page, tot)"
  shows "tot = length (notes_dict s) \<and>
         length page =
           clamp_index (length (notes_dict s)) (skip + limit) -
           clamp_index (length (notes_dict s)) skip"
  using assms
  by (auto simp: get_notes_def length_py_slice_clamp split: sum.splits
        dest!: map_result_length sort_by_created_at_length)

lemma get_notes_page:
  assumes "0 \<le> skip" and "0 \<le> limit" and "get_notes P s skip limit = Inr (page, tot)"
  shows "tot = length (notes_dict s) \<and>
         length page = min (nat limit) (length (notes_dict s) - nat skip) \<and>
         (length (notes_dict s) \<le> nat skip \<longrightarrow> page = [])"
proof -
  from get_notes_returns [OF assms(3)]
  have t: "tot = length (notes_dict s)"
    and p: "length page =
         clamp_index (length (notes_dict s)) (skip + limit) -
         clamp_index (length (notes_dict s)) skip"
    by blast+
  from p assms(1,2) have "length page = min (nat limit) (length (notes_dict s) - nat skip)"
    by (auto simp: clamp_index_def min_def nat_add_distrib; linarith)
  with t show ?thesis
    by auto
qed

text \<open>Stores that the calls keep in order.\<close>

lemma created_in_order_stored:
  assumes "created_in_order s"
  shows "list_all well_formed (stored s) \<and> sorted_wrt (<) (map d_id (stored s))"
proof -
  from assms have all: "\<And>k n. (k, n) \<in> set (notes_dict s) \<Longrightarrow> d_id n = k \<and> well_formed n"
    by (auto simp: created_in_order_def list_all_iff)
  then have eq: "map d_id (stored s) = map fst (notes_dict s)"
    by (auto simp: map_eq_conv)
  from assms have st: "sorted_wrt (<) (map fst (notes_dict s))"
    by (simp add: created_in_order_def)
  have "sorted_wrt (<) (map d_id (stored s))"
    by (simp only: eq st)
  moreover from all have "list_all well_formed (stored s)"
    by (auto simp: list_all_iff)
  ultimately show ?thesis
    by blast
qed

lemma update_new_key: "k \<notin> fst ` set al \<Longrightarrow> AList.update k v al = al @ [(k, v)]"
  by (induction al) auto

lemma created_in_order_create:
  assumes "created_in_order s" and "1 \<le> length (title note_data)"
    and "length (title note_data) \<le> 200"
  shows "created_in_order (fst (create_note P s note_data now))"
proof -
  let ?n = "\<lparr>d_id = next_id s, d_title = Some (title note_data),
        d_content = Some (content note_data), d_created_at = DT now, d_updated_at = DT now\<rparr>"
  from assms(1) have below: "\<And>k. k \<in> fst ` set (notes_dict s) \<Longrightarrow> k < next_id s"
    by (auto simp: created_in_order_def list_all_iff)
  then have "next_id s \<notin> fst ` set (notes_dict s)"
    by blast
  then have nd: "notes_dict (fst (create_note P s note_data now)) = notes_dict s @ [(next_id s, ?n)]"
    by (simp add: create_note_notes update_new_key)
  have wf: "well_formed ?n"
    using assms(2,3) by (simp add: well_formed_def)
  have "sorted_wrt (<) (map fst (notes_dict s) @ [next_id s])"
    using assms(1) below by (auto simp: created_in_order_def sorted_wrt_append)
  with assms(1) wf show ?thesis
    by (auto simp: created_in_order_def nd create_note_next_id list_all_iff)
qed

lemma created_in_order_delete:
  assumes "created_in_order s"
  shows "created_in_order (fst (delete_note s i))"
proof -
  have "sorted_wrt (<) (map fst (AList.delete i (notes_dict s)))"
    using assms
    by (simp add: created_in_order_def delete_keys removeAll_filter_not_eq sorted_wrt_filter)
  moreover have "set (AList.delete i (notes_dict s)) \<subseteq> set (notes_dict s)"
    by (auto simp: AList.delete_eq)
  ultimately show ?thesis
    using assms
    by (auto simp: created_in_order_def delete_note_notes delete_note_next_id list_all_iff)
qed

lemma set_update_subset: "set (AList.update k v al) \<subseteq> insert (k, v) (set al)"
  by (induction al) auto

lemma created_in_order_update:
  assumes ord: "created_in_order s" and valid: "valid_update u"
  shows "created_in_order (fst (update_note P s i u now))"
proof (cases "map_of (notes_dict s) i")
  case None
  then show ?thesis
    using ord by (simp add: update_note_def)
next
  case (Some n)
  let ?n' = "n\<lparr>d_title := (case upd_title u of Unset \<Rightarrow> d_title n | Supplied v \<Rightarrow> v),
               d_content := (case upd_content u of Unset \<Rightarrow> d_content n | Supplied v \<Rightarrow> v),
               d_updated_at := DT now\<rparr>"
  from Some have mem: "(i, n) \<in> set (notes_dict s)"
    by (rule map_of_SomeD)
  with ord have n: "d_id n = i" "i < next_id s" "well_formed n"
    by (auto simp: created_in_order_def list_all_iff)
  have wf': "well_formed ?n'"
    using n(3) valid
    by (cases "upd_title u"; cases "upd_content u")
       (auto simp: well_formed_def valid_update_def split: option.splits)
  from mem have "i \<in> set (map fst (notes_dict s))"
    by force
  then have keys: "map fst (AList.update i ?n' (notes_dict s)) = map fst (notes_dict s)"
    by (simp add: update_keys)
  have "\<And>k m. (k, m) \<in> set (AList.update i ?n' (notes_dict s)) \<Longrightarrow>
      d_id m = k \<and> k < next_id s \<and> well_formed m"
  proof -
    fix k m
    assume "(k, m) \<in> set (AList.update i ?n' (notes_dict s))"
    then have "(k, m) = (i, ?n') \<or> (k, m) \<in> set (notes_dict s)"
      using set_update_subset [of i ?n' "notes_dict s"] by blast
    then show "d_id m = k \<and> k < next_id s \<and> well_formed m"
      using n wf' ord by (auto simp: created_in_order_def list_all_iff)
  qed
  then have "created_in_order (s\<lparr>notes_dict := AList.update i ?n' (notes_dict s)\<rparr>)"
    using ord keys by (auto simp: created_in_order_def list_all_iff)
  moreover have "created_in_order (t\<lparr>disk := d\<rparr>) = created_in_order t" for t d
    by (simp add: created_in_order_def)
  ultimately show ?thesis
    using ord Some by (simp add: update_note_state Let_def)
qed

lemma created_in_order_run_ops:
  assumes "created_in_order s"
    and "list_all (\<lambda>x. case x of Create note_data now \<Rightarrow>
            1 \<le> length (title note_data) \<and> length (title note_data) \<le> 200
          | Delete i \<Rightarrow> True) ops"
  shows "created_in_order (fst (run_ops P s ops))"
  using assms
proof (induction ops arbitrary: s)
  case Nil
  then show ?case by simp
next
  case (Cons x ops)
  show ?case
  proof (cases x)
    case (Create note_data now)
    with Cons.prems have "created_in_order (fst (create_note P s note_data now))"
      by (simp add: created_in_order_create)
    from Cons.IH [OF this] Cons.prems(2) Create show ?thesis
      by (simp add: case_prod_unfold)
  next
    case (Delete i)
    from Cons.prems(1) have "created_in_order (fst (delete_note s i))"
      by (rule created_in_order_delete)
    from Cons.IH [OF this] Cons.prems(2) Delete show ?thesis
      by (simp add: case_prod_unfold)
  qed
qed

lemma created_in_order_empty: "created_in_order db_empty"
  by (simp add: created_in_order_def db_empty_def)

text \<open>\<^verbatim>\<open>int\<close> reads back what \<^verbatim>\<open>repr\<close> printed.\<close>

lemma digit_cases: "d < 10 \<Longrightarrow> d \<in> {0, 1, 2, 3, 4, 5, 6, 7, 8, 9::nat}"
  by auto

lemma digit_char_props:
  assumes "d < 10"
  shows "is_digit (digit_char d) \<and> digit_val (digit_char d) = d \<and>
         \<not> py_isspace (digit_char d) \<and> digit_char d \<noteq> CHR ''-'' \<and> digit_char d \<noteq> CHR ''+''"
  using digit_cases [OF assms]
  by (auto simp: digit_char_def is_digit_def digit_val_def py_isspace_def)

lemma str_nat_digits: "str_nat n \<noteq> [] \<and> list_all is_digit (str_nat n)"
proof (induction n rule: str_nat.induct)
  case (1 n)
  show ?case
  proof (cases "n < 10")
    case True
    then show ?thesis
      by (simp add: str_nat.simps [of n] digit_char_props)
  next
    case False
    with 1 show ?thesis
      by (simp add: str_nat.simps [of n] digit_char_props)
  qed
qed

lemma after_digit_snoc:
  "list_all is_digit ds \<Longrightarrow> is_digit d \<Longrightarrow>
   after_digit acc (ds @ [d]) = map_option (\<lambda>a. 10 * a + digit_val d) (after_digit acc ds)"
  by (induction acc ds rule: after_digit.induct) auto

lemma parse_digits_snoc:
  "xs \<noteq> [] \<Longrightarrow> list_all is_digit xs \<Longrightarrow> is_digit d \<Longrightarrow>
   parse_digits (xs @ [d]) = map_option (\<lambda>a. 10 * a + digit_val d) (parse_digits xs)"
  by (cases xs) (auto simp: parse_digits_def after_digit_snoc)

lemma parse_digits_str_nat: "parse_digits (str_nat n) = Some n"
proof (induction n rule: str_nat.induct)
  case (1 n)
  show ?case
  proof (cases "n < 10")
    case True
    then show ?thesis
      by (simp add: str_nat.simps [of n] parse_digits_def digit_char_props)
  next
    case False
    then have "parse_digits (str_nat (n div 10)) = Some (n div 10)"
      using 1 by simp
    with False show ?thesis
      by (simp add: str_nat.simps [of n] parse_digits_snoc str_nat_digits digit_char_props)
  qed
qed

lemma py_nat_str_nat:
  "length (str_nat n) \<le> max_str_digits \<Longrightarrow> py_nat (str_nat n) = Some n"
  using str_nat_digits [of n]
  by (simp add: py_nat_def parse_digits_str_nat list_all_iff)

lemma strip_id:
  assumes "s \<noteq> []" and "\<not> py_isspace (hd s)" and "\<not> py_isspace (last s)"
  shows "strip s = s"
proof -
  from assms(1,2) have "dropWhile py_isspace s = s"
    by (cases s) auto
  moreover from assms(1,3) have "dropWhile py_isspace (rev s) = rev s"
    by (cases "rev s") (auto simp: hd_rev [symmetric])
  ultimately show ?thesis
    by (simp add: strip_def)
qed

lemma str_nat_ends:
  "is_digit (hd (str_nat n)) \<and> is_digit (last (str_nat n))"
  using str_nat_digits [of n]
  by (cases "str_nat n") (auto simp: list_all_iff)

lemma is_digit_no_space: "is_digit c \<Longrightarrow> \<not> py_isspace c \<and> c \<noteq> CHR ''-'' \<and> c \<noteq> CHR ''+''"
  by (auto simp: is_digit_def py_isspace_def)

lemma py_int_str_int:
  assumes len: "length (str_nat (nat \<bar>k\<bar>)) \<le> max_str_digits"
  shows "py_int (str_int k) = Some k"
proof (cases "k < 0")
  case True
  let ?s = "CHR ''-'' # str_nat (nat (- k))"
  have "strip ?s = ?s"
    using str_nat_digits [of "nat (- k)"] str_nat_ends [of "nat (- k)"]
    by (intro strip_id) (auto simp: py_isspace_def dest: is_digit_no_space)
  moreover from True len have "py_nat (str_nat (nat (- k))) = Some (nat (- k))"
    by (intro py_nat_str_nat) simp
  ultimately show ?thesis
    using True by (simp add: py_int_def str_int_def)
next
  case False
  let ?s = "str_nat (nat k)"
  obtain c r where cr: "?s = c # r"
    using str_nat_digits [of "nat k"] by (cases ?s) auto
  then have c: "is_digit c"
    using str_nat_ends [of "nat k"] by simp
  have "strip ?s = ?s"
    using str_nat_digits [of "nat k"] str_nat_ends [of "nat k"]
    by (intro strip_id) (auto dest: is_digit_no_space)
  moreover from False len have "py_nat ?s = Some (nat k)"
    by (intro py_nat_str_nat) simp
  then have "py_nat (c # r) = Some (nat k)"
    using cr by simp
  ultimately show ?thesis
    using False cr c by (auto simp: py_int_def str_int_def dest: is_digit_no_space)
qed

lemma load_items_dump:
  assumes "distinct (map fst al)" and "fst ` set al \<inter> fst ` set acc = {}"
    and "\<forall>k\<in>fst ` set al. length (str_nat (nat \<bar>k\<bar>)) \<le> max_str_digits"
  shows "load_items (map (\<lambda>(k, n). (str_int k, dump_note n)) al) acc =
     Inr (acc @ map (\<lambda>(k, n). (k, load_note (dump_note n))) al)"
  using assms
proof (induction al arbitrary: acc)
  case Nil
  then show ?case by simp
next
  case (Cons x al)
  obtain k n where x: "x = (k, n)"
    by (cases x)
  from Cons.prems x have new: "k \<notin> fst ` set acc"
    by auto
  from Cons.prems(3) x have k: "py_int (str_int k) = Some k"
    by (intro py_int_str_int) simp
  have "fst ` set al \<inter> fst ` set (acc @ [(k, load_note (dump_note n))]) = {}"
    using Cons.prems x by auto
  moreover from Cons.prems(3)
  have "\<forall>k\<in>fst ` set al. length (str_nat (nat \<bar>k\<bar>)) \<le> max_str_digits"
    by simp
  ultimately show ?case
    using Cons.IH [of "acc @ [(k, load_note (dump_note n))]"] Cons.prems(1) x new k
    by (simp add: update_new_key)
qed

text \<open>\<^verbatim>\<open>int\<close> on some strings: what it reads, and what it refuses with \<^verbatim>\<open>ValueError\<close>,
  the separator 28 before a digit and a string of 4301 digits among them.\<close>

lemma py_int_examples:
  "py_int ''1'' = Some 1 \<and> py_int '' 12 '' = Some 12 \<and> py_int ''-7'' = Some (- 7) \<and>
   py_int ''+1_000'' = Some 1000 \<and> py_int ''007'' = Some 7 \<and>
   py_int [] = None \<and> py_int ''abc'' = None \<and> py_int ''1__0'' = None \<and>
   py_int ''1_'' = None \<and> py_int ''- 1'' = None \<and> py_int ''1.0'' = None \<and>
   py_int [char_of (28 :: nat), CHR ''1''] = None \<and>
   py_int [char_of (160 :: nat), CHR ''1''] = Some 1"
  by code_simp

lemma py_int_too_long: "py_int (replicate 4301 CHR ''1'') = None"
proof -
  have "replicate 4301 CHR ''1'' = CHR ''1'' # replicate 4300 CHR ''1''"
    using replicate_Suc [of 4300 "CHR ''1''"] by simp
  moreover have "strip (replicate 4301 CHR ''1'') = replicate 4301 CHR ''1''"
    by (simp add: strip_def py_isspace_def)
  moreover have "py_nat (replicate 4301 CHR ''1'') = None"
    by (simp add: py_nat_def max_str_digits_def is_digit_def)
  ultimately show ?thesis
    by (simp add: py_int_def)
qed

text \<open>What a fresh object reads from the file that \<^verbatim>\<open>_save_to_file\<close> wrote: the keys in
  their order, the notes with their timestamps as text, and the counter. The keys are
  integers of at most 4300 digits, which \<^verbatim>\<open>int\<close> reads.\<close>

lemma load_dump_note:
  "load_note (dump_note n) =
     n\<lparr>d_created_at := TStr (dump_timestamp (d_created_at n)),
       d_updated_at := TStr (dump_timestamp (d_updated_at n))\<rparr>"
  by (cases n) (simp add: load_note_def dump_note_def)

lemma reload_after_save:
  assumes "distinct (map fst (notes_dict s))" and "data_file s = Some p" and "dirname p \<noteq> []"
    and "\<forall>k\<in>fst ` set (notes_dict s). length (str_nat (nat \<bar>k\<bar>)) \<le> max_str_digits"
  shows "\<exists>s1. save_to_file s = Inr s1 \<and>
     init (Some p) (disk s1) =
       Inr \<lparr>data_file = Some p,
            notes_dict = map (\<lambda>(k, n). (k, n\<lparr>d_created_at := TStr (dump_timestamp (d_created_at n)),
                                               d_updated_at := TStr (dump_timestamp (d_updated_at n))\<rparr>))
                           (notes_dict s),
            next_id = next_id s, disk = disk s1\<rparr>"
proof -
  from assms(3) have p: "p \<noteq> []"
    by (auto simp: dirname_def)
  have save: "save_to_file s = Inr (s\<lparr>disk := Document (snapshot s)\<rparr>)"
    using assms(2,3) p by (simp add: save_to_file_def)
  have "load_items (map (\<lambda>(k, n). (str_int k, dump_note n)) (notes_dict s)) [] =
      Inr ([] @ map (\<lambda>(k, n). (k, load_note (dump_note n))) (notes_dict s))"
    using assms(1,4) by (intro load_items_dump) simp_all
  then have "load_items (map (\<lambda>(k, n). (str_int k, dump_note n)) (notes_dict s)) [] =
      Inr (map (\<lambda>(k, n). (k, n\<lparr>d_created_at := TStr (dump_timestamp (d_created_at n)),
                                 d_updated_at := TStr (dump_timestamp (d_updated_at n))\<rparr>))
             (notes_dict s))"
    by (simp add: load_dump_note)
  then have "init (Some p) (Document (snapshot s)) =
       Inr \<lparr>data_file = Some p,
            notes_dict = map (\<lambda>(k, n). (k, n\<lparr>d_created_at := TStr (dump_timestamp (d_created_at n)),
                                               d_updated_at := TStr (dump_timestamp (d_updated_at n))\<rparr>))
                           (notes_dict s),
            next_id = next_id s, disk = Document (snapshot s)\<rparr>"
    using p by (simp add: init_def load_from_file_def snapshot_def)
  with save show ?thesis
    by simp
qed

text \<open>A note without a title, at the head of the dict, ends every search, whatever the
  query and whatever \<^verbatim>\<open>str.lower\<close> returns.\<close>

lemma search_notes_null_title:
  "stored s = n # ns \<Longrightarrow> d_title n = None \<Longrightarrow> search_notes L P s q = Inl AttributeError"
  by (simp add: search_notes_def note_matches_def)




















subsection \<open>C1: the order of a listing\<close>




subsection \<open>C2: when an update refreshes \<^verbatim>\<open>updated_at\<close>\<close>




subsection \<open>C3: the identifiers that \<^verbatim>\<open>create_note\<close> hands out\<close>

text \<open>Claim C3. For every store and every sequence of \<^verbatim>\<open>create_note\<close> and
  \<^verbatim>\<open>delete_note\<close> calls on it, the identifiers that the \<^verbatim>\<open>create_note\<close> calls return
  are strictly increasing in the order of the calls, so none repeats, whatever was deleted
  in between; each of them is below the counter after the run (the run may stop anywhere,
  so below the counter at every moment after it was handed out); and when every key of
  the dict is below the counter before the run, every key is below it after the run.\<close>

theorem create_ids_increase:
  "sorted_wrt (<) (returned_ids (snd (run_ops P s ops))) \<and>
   distinct (returned_ids (snd (run_ops P s ops))) \<and>
   (\<forall>i\<in>set (returned_ids (snd (run_ops P s ops))).
      next_id s \<le> i \<and> i < next_id (fst (run_ops P s ops))) \<and>
   ((\<forall>k\<in>fst ` set (notes_dict s). k < next_id s) \<longrightarrow>
    (\<forall>k\<in>fst ` set (notes_dict (fst (run_ops P s ops))). k < next_id (fst (run_ops P s ops))))"
proof -
  have "sorted_wrt (<) (returned_ids (snd (run_ops P s ops)))"
    using run_ops_ids [of s P ops] by blast
  moreover from this have "distinct (returned_ids (snd (run_ops P s ops)))"
    by (simp add: strict_sorted_iff)
  ultimately show ?thesis
    using run_ops_ids [of s P ops] run_ops_keys [of s P ops] by blast
qed

text \<open>Three notes with a deletion in between: the identifiers 1, 2, 3, and the counter 4
  although note 1 is gone.\<close>

theorem create_ids_increase_witness:
  "returned_ids (snd (run_ops no_parser db_empty
      [Create \<lparr>title = ''A'', content = ''a''\<rparr> morning,
       Create \<lparr>title = ''B'', content = ''b''\<rparr> morning,
       Delete 1,
       Create \<lparr>title = ''C'', content = ''c''\<rparr> evening])) = [1, 2, 3] \<and>
   map fst (notes_dict (fst (run_ops no_parser db_empty
      [Create \<lparr>title = ''A'', content = ''a''\<rparr> morning,
       Create \<lparr>title = ''B'', content = ''b''\<rparr> morning,
       Delete 1,
       Create \<lparr>title = ''C'', content = ''c''\<rparr> evening]))) = [2, 3] \<and>
   next_id (fst (run_ops no_parser db_empty
      [Create \<lparr>title = ''A'', content = ''a''\<rparr> morning,
       Create \<lparr>title = ''B'', content = ''b''\<rparr> morning,
       Delete 1,
       Create \<lparr>title = ''C'', content = ''c''\<rparr> evening])) = 4 \<and>
   sorted_wrt (<) (returned_ids (snd (run_ops no_parser db_empty
      [Create \<lparr>title = ''A'', content = ''a''\<rparr> morning,
       Create \<lparr>title = ''B'', content = ''b''\<rparr> morning,
       Delete 1,
       Create \<lparr>title = ''C'', content = ''c''\<rparr> evening])))"
proof -
  let ?ops = "[Create \<lparr>title = ''A'', content = ''a''\<rparr> morning,
       Create \<lparr>title = ''B'', content = ''b''\<rparr> morning,
       Delete 1,
       Create \<lparr>title = ''C'', content = ''c''\<rparr> evening]"
  have a: "returned_ids (snd (run_ops no_parser db_empty ?ops)) = [1, 2, 3]"
    by code_simp
  have b: "map fst (notes_dict (fst (run_ops no_parser db_empty ?ops))) = [2, 3]"
    by code_simp
  have c: "next_id (fst (run_ops no_parser db_empty ?ops)) = 4"
    by code_simp
  from create_ids_increase [of no_parser db_empty ?ops]
  have "sorted_wrt (<) (returned_ids (snd (run_ops no_parser db_empty ?ops)))"
    by blast
  with a b c show ?thesis
    by blast
qed

subsection \<open>C4: what an update touches\<close>

text \<open>Claim C4. For every note of the store, \<^verbatim>\<open>update_note\<close> writes the fields that the
  input supplies and no other: a field that is not supplied keeps its value, as do the
  identifier and \<^verbatim>\<open>created_at\<close>, the other notes and the counter (so an update of the
  title alone keeps the content). When the input supplies no field, the call returns the
  \<^verbatim>\<open>NoteResponse\<close> of the note as it is stored, and the state, the file with it, is the
  one before the call.\<close>

theorem update_note_frame:
  assumes "map_of (notes_dict s) i = Some n"
  shows "(\<exists>n'. map_of (notes_dict (fst (update_note P s i u now))) i = Some n' \<and>
            d_title n' = (case upd_title u of Unset \<Rightarrow> d_title n | Supplied v \<Rightarrow> v) \<and>
            d_content n' = (case upd_content u of Unset \<Rightarrow> d_content n | Supplied v \<Rightarrow> v) \<and>
            d_id n' = d_id n \<and> d_created_at n' = d_created_at n) \<and>
         (\<forall>j. j \<noteq> i \<longrightarrow>
            map_of (notes_dict (fst (update_note P s i u now))) j = map_of (notes_dict s) j) \<and>
         next_id (fst (update_note P s i u now)) = next_id s \<and>
         (upd_title u = Unset \<and> upd_content u = Unset \<longrightarrow>
            update_note P s i u now = (s, map_sum id Some (NoteResponse_of P n)) \<and>
            (well_formed n \<longrightarrow> snd (update_note P s i u now) = Inr (Some (response_of n))))"
proof -
  have unset: "upd_title u = Unset \<and> upd_content u = Unset \<longrightarrow>
      update_note P s i u now = (s, map_sum id Some (NoteResponse_of P n))"
    using assms by (simp add: update_note_def model_dump_empty_iff)
  then have "upd_title u = Unset \<and> upd_content u = Unset \<longrightarrow> well_formed n \<longrightarrow>
      snd (update_note P s i u now) = Inr (Some (response_of n))"
    by (simp add: NoteResponse_of_well_formed)
  moreover have "\<exists>n'. map_of (notes_dict (fst (update_note P s i u now))) i = Some n' \<and>
            d_title n' = (case upd_title u of Unset \<Rightarrow> d_title n | Supplied v \<Rightarrow> v) \<and>
            d_content n' = (case upd_content u of Unset \<Rightarrow> d_content n | Supplied v \<Rightarrow> v) \<and>
            d_id n' = d_id n \<and> d_created_at n' = d_created_at n"
    using assms by (simp add: update_note_state Let_def update_conv')
  moreover have "\<forall>j. j \<noteq> i \<longrightarrow>
      map_of (notes_dict (fst (update_note P s i u now))) j = map_of (notes_dict s) j"
    using assms by (simp add: update_note_state Let_def update_conv')
  moreover have "next_id (fst (update_note P s i u now)) = next_id s"
    using assms by (simp add: update_note_state Let_def)
  ultimately show ?thesis
    using unset by blast
qed

text \<open>The saved note 1: a new title keeps the content \<^verbatim>\<open>text\<close>, and the empty update
  returns the note as it is.\<close>

theorem update_note_frame_witness:
  "map_of (notes_dict db_saved) 1 =
     Some \<lparr>d_id = 1, d_title = Some ''A'', d_content = Some ''text'',
           d_created_at = DT morning, d_updated_at = DT morning\<rparr> \<and>
   (\<exists>n'. map_of (notes_dict (fst (update_note no_parser db_saved 1
             \<lparr>upd_title = Supplied (Some ''X''), upd_content = Unset\<rparr> evening))) 1 = Some n' \<and>
          d_title n' = Some ''X'' \<and> d_content n' = Some ''text'' \<and>
          d_id n' = 1 \<and> d_created_at n' = DT morning) \<and>
   update_note no_parser db_saved 1 \<lparr>upd_title = Unset, upd_content = Unset\<rparr> evening =
     (db_saved, Inr (Some \<lparr>title = ''A'', content = ''text'', note_id = 1,
                          created_at = morning, updated_at = morning\<rparr>))"
proof -
  note h = db_saved_note
  have wf: "well_formed \<lparr>d_id = 1, d_title = Some ''A'', d_content = Some ''text'',
           d_created_at = DT morning, d_updated_at = DT morning\<rparr>"
    by (simp add: well_formed_def)
  from update_note_frame [OF h,
      where u = "\<lparr>upd_title = Supplied (Some ''X''), upd_content = Unset\<rparr>"
      and P = no_parser and now = evening]
  have a: "\<exists>n'. map_of (notes_dict (fst (update_note no_parser db_saved 1
             \<lparr>upd_title = Supplied (Some ''X''), upd_content = Unset\<rparr> evening))) 1 = Some n' \<and>
          d_title n' = Some ''X'' \<and> d_content n' = Some ''text'' \<and>
          d_id n' = 1 \<and> d_created_at n' = DT morning"
    by simp
  from update_note_frame [OF h, where u = "\<lparr>upd_title = Unset, upd_content = Unset\<rparr>"
      and P = no_parser and now = evening] wf
  have b: "update_note no_parser db_saved 1 \<lparr>upd_title = Unset, upd_content = Unset\<rparr> evening =
     (db_saved, Inr (Some \<lparr>title = ''A'', content = ''text'', note_id = 1,
                          created_at = morning, updated_at = morning\<rparr>))"
    by (auto simp: response_of_def prod_eq_iff)
  from h a b show ?thesis
    by blast
qed

subsection \<open>C5: a store read back from its file\<close>

text \<open>Claim C5 says that a store written to its file and read back by a fresh object
  has the same notes and the same counter. The keys, the identifiers, the titles, the
  contents and the counter do come back (\<open>reload_after_save\<close>). The timestamps do not: \<^verbatim>\<open>_save_to_file\<close> writes
  a datetime as text (\<^verbatim>\<open>default=str\<close>) and \<^verbatim>\<open>_load_from_file\<close> keeps the text, where
  \<^verbatim>\<open>create_note\<close> stores a datetime. \<^verbatim>\<open>get_note\<close> still answers alike, since
  \<^verbatim>\<open>NoteResponse\<close> parses the text. But the two stores are not the same: after one more
  \<^verbatim>\<open>create_note\<close>, \<^verbatim>\<open>get_notes\<close> lists the two notes of the first store and raises
  \<^verbatim>\<open>TypeError\<close> on the store that was read back, whose sort compares a datetime with
  a string.\<close>

theorem reload_turns_timestamps_into_text:
  "notes_dict db_saved =
     [(1, \<lparr>d_id = 1, d_title = Some ''A'', d_content = Some ''text'',
            d_created_at = DT morning, d_updated_at = DT morning\<rparr>)] \<and>
   map_sum id notes_dict db_reloaded =
     Inr [(1, \<lparr>d_id = 1, d_title = Some ''A'', d_content = Some ''text'',
                d_created_at = TStr ''2024-05-01 09:00:00'',
                d_updated_at = TStr ''2024-05-01 09:00:00''\<rparr>)] \<and>
   map_sum id next_id db_reloaded = Inr (next_id db_saved) \<and>
   get_note example_parser (projr db_reloaded) 1 = get_note example_parser db_saved 1 \<and>
   get_notes example_parser
     (fst (create_note example_parser db_saved \<lparr>title = ''B'', content = ''b''\<rparr> evening)) 0 10 =
     Inr ([\<lparr>title = ''B'', content = ''b'', note_id = 2, created_at = evening, updated_at = evening\<rparr>,
           \<lparr>title = ''A'', content = ''text'', note_id = 1, created_at = morning, updated_at = morning\<rparr>],
          2) \<and>
   get_notes example_parser
     (fst (create_note example_parser (projr db_reloaded) \<lparr>title = ''B'', content = ''b''\<rparr> evening))
     0 10 = Inl TypeError"
proof -
  have a: "notes_dict db_saved =
     [(1, \<lparr>d_id = 1, d_title = Some ''A'', d_content = Some ''text'',
            d_created_at = DT morning, d_updated_at = DT morning\<rparr>)]"
    by (simp add: db_saved_eq)
  have b: "map_sum id notes_dict db_reloaded =
     Inr [(1, \<lparr>d_id = 1, d_title = Some ''A'', d_content = Some ''text'',
                d_created_at = TStr ''2024-05-01 09:00:00'',
                d_updated_at = TStr ''2024-05-01 09:00:00''\<rparr>)]"
    by (simp add: db_reloaded_eq)
  have c: "map_sum id next_id db_reloaded = Inr (next_id db_saved)"
    by (simp add: db_reloaded_eq db_saved_eq)
  have d: "get_note example_parser (projr db_reloaded) 1 = get_note example_parser db_saved 1"
    unfolding db_reloaded_eq db_saved_eq by code_simp
  have e: "get_notes example_parser
     (fst (create_note example_parser db_saved \<lparr>title = ''B'', content = ''b''\<rparr> evening)) 0 10 =
     Inr ([\<lparr>title = ''B'', content = ''b'', note_id = 2, created_at = evening, updated_at = evening\<rparr>,
           \<lparr>title = ''A'', content = ''text'', note_id = 1, created_at = morning, updated_at = morning\<rparr>],
          2)"
    unfolding db_saved_eq by code_simp
  have f: "get_notes example_parser
     (fst (create_note example_parser (projr db_reloaded) \<lparr>title = ''B'', content = ''b''\<rparr> evening))
     0 10 = Inl TypeError"
    unfolding db_reloaded_eq by code_simp
  from a b c d e f show ?thesis
    by blast
qed

subsection \<open>C6: starting on a file\<close>

text \<open>Claim C6 says that the start never fails on a file that is missing, empty or does
  not parse, and leaves the empty store with the counter 1. \<^verbatim>\<open>_load_from_file\<close> does so
  for the two exceptions that its \<^verbatim>\<open>except\<close> clause names: the missing file, and text
  that is no JSON. It misses the others. A file whose bytes are no text ends the start
  with \<^verbatim>\<open>UnicodeDecodeError\<close>, in \<^verbatim>\<open>__init__\<close> and at the start of the application
  alike; JSON that is no object, or whose \<^verbatim>\<open>notes\<close> is no object, ends it with
  \<^verbatim>\<open>AttributeError\<close>; a key that is no integer ends it with \<^verbatim>\<open>ValueError\<close>.\<close>

theorem startup_raises_on_unreadable_file:
  "startup (Some ''data/notes.json'') Undecodable = Inl UnicodeDecodeError \<and>
   init (Some ''data/notes.json'') Undecodable = Inl UnicodeDecodeError \<and>
   startup (Some ''data/notes.json'') Not_an_object = Inl AttributeError \<and>
   startup (Some ''data/notes.json'') Notes_not_an_object = Inl AttributeError \<and>
   startup (Some ''data/notes.json'')
     (Document \<lparr>doc_notes = Some [(''abc'', \<lparr>j_id = 1, j_title = Some ''A'', j_content = Some ''a'',
                                             j_created_at = ''x'', j_updated_at = ''x''\<rparr>)],
               doc_next_id = Some 2\<rparr>) = Inl ValueError \<and>
   startup (Some ''data/notes.json'') Unparsable =
     Inr \<lparr>data_file = Some ''data/notes.json'', notes_dict = [], next_id = 1, disk = Unparsable\<rparr> \<and>
   startup (Some ''data/notes.json'') Missing = Inr db_file"
proof -
  have a: "startup (Some ''data/notes.json'') Undecodable = Inl UnicodeDecodeError"
    by (simp add: startup_def load_from_file_def)
  have b: "init (Some ''data/notes.json'') Undecodable = Inl UnicodeDecodeError"
    by (simp add: init_def load_from_file_def)
  have c: "startup (Some ''data/notes.json'') Not_an_object = Inl AttributeError"
    by (simp add: startup_def load_from_file_def)
  have d: "startup (Some ''data/notes.json'') Notes_not_an_object = Inl AttributeError"
    by (simp add: startup_def load_from_file_def)
  have e: "startup (Some ''data/notes.json'')
     (Document \<lparr>doc_notes = Some [(''abc'', \<lparr>j_id = 1, j_title = Some ''A'', j_content = Some ''a'',
                                             j_created_at = ''x'', j_updated_at = ''x''\<rparr>)],
               doc_next_id = Some 2\<rparr>) = Inl ValueError"
    by code_simp
  have f: "startup (Some ''data/notes.json'') Unparsable =
     Inr \<lparr>data_file = Some ''data/notes.json'', notes_dict = [], next_id = 1, disk = Unparsable\<rparr>"
    by (simp add: startup_def load_from_file_def)
  have g: "startup (Some ''data/notes.json'') Missing = Inr db_file"
    by (simp add: startup_def load_from_file_def db_file_def)
  from a b c d e f g show ?thesis
    by (intro conjI)
qed

subsection \<open>C7: what a search returns\<close>

text \<open>Claim C7 says that on every store \<^verbatim>\<open>search_notes\<close> returns the notes whose title
  or content contains the query. On the store of A, B and C the query \<^verbatim>\<open>goodbye\<close> finds
  note B, whose content it is. After the update of note 1 with \<^verbatim>\<open>{"title": null}\<close>, which
  \<^verbatim>\<open>update_note\<close> writes into the dict before its \<^verbatim>\<open>NoteResponse\<close> refuses the result,
  note B is still there with the same content, and the same search raises
  \<^verbatim>\<open>AttributeError\<close> at \<^verbatim>\<open>note['title'].lower()\<close> of note 1: it returns no note, and the
  route answers with the status 500. A note without a title at the head of the dict ends
  every search so (\<open>search_notes_null_title\<close>).\<close>

theorem search_notes_raises_on_null_title:
  "search_notes lower_latin1 no_parser db_abc ''goodbye'' =
     Inr [\<lparr>title = ''B'', content = ''goodbye'', note_id = 2,
           created_at = morning, updated_at = morning\<rparr>] \<and>
   update_note no_parser db_abc 1 \<lparr>upd_title = Supplied None, upd_content = Unset\<rparr> evening =
     (db_null, Inl ValidationError) \<and>
   map (\<lambda>n. (d_id n, d_title n, d_content n)) (stored db_null) =
     [(1, None, Some ''Hello world''), (2, Some ''B'', Some ''goodbye''), (3, Some ''C'', Some [])] \<and>
   search_notes lower_latin1 no_parser db_null ''goodbye'' = Inl AttributeError \<and>
   search_notes_route lower_latin1 no_parser db_null ''goodbye'' = Inl (HTTPException 500)"
  by code_simp

subsection \<open>C8: an update of an unknown identifier\<close>

text \<open>Claim C8. For every identifier that is not a key of the store, \<^verbatim>\<open>update_note\<close>
  returns \<^verbatim>\<open>None\<close> (the "not found" signal), and the whole state is the one before the
  call: the dict, the counter and the backing file.\<close>

theorem update_note_not_found:
  "i \<notin> fst ` set (notes_dict s) \<Longrightarrow> update_note P s i u now = (s, Inr None)"
  by (simp add: update_note_def map_of_eq_None_iff [symmetric])

text \<open>The store with the saved note 1 knows no note 7.\<close>

theorem update_note_not_found_witness:
  "7 \<notin> fst ` set (notes_dict db_saved) \<and>
   update_note no_parser db_saved 7
     \<lparr>upd_title = Supplied (Some ''X''), upd_content = Unset\<rparr> evening = (db_saved, Inr None)"
proof -
  have h: "7 \<notin> fst ` set (notes_dict db_saved)"
    by code_simp
  from update_note_not_found [OF h] h show ?thesis by simp
qed

subsection \<open>C9: the total and a page beyond the end\<close>

text \<open>Claim C9 says that on every store \<^verbatim>\<open>get_notes\<close> returns the number of notes as
  total, and the empty page when \<open>skip\<close> is the size of the store or more. Whenever
  \<^verbatim>\<open>get_notes\<close> returns, it does so (\<open>get_notes_page\<close>). But the sort comes before
  the slice, and on the store that was read back from its file and then got a second note
  the sort compares text with a datetime: \<^verbatim>\<open>get_notes\<close> raises \<^verbatim>\<open>TypeError\<close> for
  every \<open>skip\<close> and \<open>limit\<close>, also for \<open>skip = 5\<close> on the two notes, where the store
  that wrote the file returns the empty page and the total 2 after the same calls.\<close>

theorem get_notes_raises_after_reload:
  "length (notes_dict db_restarted) = 2 \<and>
   map (\<lambda>n. (d_id n, d_created_at n)) (stored db_restarted) =
     [(1, TStr ''2024-05-01 09:00:00''), (2, DT evening)] \<and>
   get_notes example_parser db_restarted 5 10 = Inl TypeError \<and>
   get_notes example_parser db_restarted 0 10 = Inl TypeError \<and>
   get_notes example_parser db_continued 5 10 = Inr ([], 2)"
proof -
  have r: "db_restarted =
      fst (create_note example_parser
        \<lparr>data_file = Some ''data/notes.json'',
          notes_dict = [(1, \<lparr>d_id = 1, d_title = Some ''A'', d_content = Some ''text'',
                             d_created_at = TStr ''2024-05-01 09:00:00'',
                             d_updated_at = TStr ''2024-05-01 09:00:00''\<rparr>)],
          next_id = 2,
          disk = Document
            \<lparr>doc_notes = Some [(''1'', \<lparr>j_id = 1, j_title = Some ''A'', j_content = Some ''text'',
                                       j_created_at = ''2024-05-01 09:00:00'',
                                       j_updated_at = ''2024-05-01 09:00:00''\<rparr>)],
             doc_next_id = Some 2\<rparr>\<rparr>
        \<lparr>title = ''B'', content = ''b''\<rparr> evening)"
    by (simp add: db_restarted_def db_reloaded_eq)
  have a: "length (notes_dict db_restarted) = 2"
    unfolding r by code_simp
  have b: "map (\<lambda>n. (d_id n, d_created_at n)) (stored db_restarted) =
     [(1, TStr ''2024-05-01 09:00:00''), (2, DT evening)]"
    unfolding r by code_simp
  have c: "get_notes example_parser db_restarted 5 10 = Inl TypeError"
    unfolding r by code_simp
  have d: "get_notes example_parser db_restarted 0 10 = Inl TypeError"
    unfolding r by code_simp
  have e: "get_notes example_parser db_continued 5 10 = Inr ([], 2)"
    unfolding db_continued_def db_saved_eq by code_simp
  from a b c d e show ?thesis
    by (intro conjI)
qed

subsection \<open>C10: the empty query\<close>

text \<open>Claim C10 says that on every store \<^verbatim>\<open>search_notes\<close> with the empty string returns
  every note, and that the store checks nothing about the query: the guard is the route's,
  which refuses the empty query before the store is called. On the store of A, B and C the
  empty query does return the three notes. On the same store after the update of note 1
  with \<^verbatim>\<open>{"title": null}\<close> it returns none of the three: \<^verbatim>\<open>note['title'].lower()\<close> raises
  \<^verbatim>\<open>AttributeError\<close> at note 1.\<close>

theorem search_notes_empty_query_raises:
  "search_notes lower_latin1 no_parser db_abc [] =
     Inr [\<lparr>title = ''C'', content = [], note_id = 3, created_at = evening, updated_at = evening\<rparr>,
          \<lparr>title = ''A'', content = ''Hello world'', note_id = 1,
           created_at = morning, updated_at = morning\<rparr>,
          \<lparr>title = ''B'', content = ''goodbye'', note_id = 2,
           created_at = morning, updated_at = morning\<rparr>] \<and>
   search_notes_route lower_latin1 no_parser db_abc [] = Inl RequestValidationError \<and>
   length (stored db_null) = 3 \<and>
   search_notes lower_latin1 no_parser db_null [] = Inl AttributeError"
  by code_simp

end
